theory Spec2Isabelle
  imports Complex_Main "HOL-Library.Word" "HOL-Library.Sublist"
begin

section \<open>Data model of the procedural and scene-format glue (src/procedural/main.cpp)\<close>

text \<open>
  The file \<^verbatim>\<open>main.cpp\<close> is a sequence of calls into the renderer API, the stage
  library and the reader and writer classes. Its functions are modelled as pure
  functions that return their C++ return value together with the ordered trace of the
  calls they make. Everything the file calls but does not define is a field of the
  record \<open>host\<close> (a parameter of every definition) or an event of the trace.

  The C++ \<^verbatim>\<open>float\<close> is a type parameter \<open>'f\<close> of class \<open>ord\<close>: the file only
  stores floats and compares two of them with \<open><\<close>, and nothing is assumed of that
  comparison. \<^verbatim>\<open>int\<close> is a 32-bit word, read as signed (\<open>sint\<close>).
\<close>

type_synonym c_int = "32 word"

text \<open>Handles stand for the addresses of renderer nodes and universes.\<close>

type_synonym handle = nat

text \<open>The parameters declared in \<^verbatim>\<open>node_parameters\<close>; \<open>overrides\<close> is an array pointer
  that the code tests against null.\<close>

record 'f proc_node =
  node_handle :: handle
  filename :: string
  object_path :: string
  frame :: 'f
  debug :: bool
  threads :: c_int
  overrides :: "string list option"
  cache_id :: c_int

record 'f options_node =
  procedural_searchpath :: string
  options_frame :: 'f

record 'f camera_node =
  shutter_start :: 'f
  shutter_end :: 'f

record 'f universe =
  universe_handle :: handle
  options :: "'f options_node option"
  camera :: "'f camera_node option"

text \<open>\<^verbatim>\<open>AtProcViewportMode\<close>, as listed in the comment above \<^verbatim>\<open>procedural_viewport\<close>.\<close>

datatype viewport_mode = AI_PROC_BOXES | AI_PROC_POINTS | AI_PROC_POLYGONS

text \<open>\<^verbatim>\<open>AtParamValueMap\<close>: typed values under string keys. A typed getter succeeds
  when the key is present with a value of that type.\<close>

datatype 'f param_value = PBool bool | PInt c_int | PFlt 'f | PStr string

type_synonym 'f param_map = "(string \<times> 'f param_value) list"

definition AiParamValueMapGetBool :: "'f param_map \<Rightarrow> string \<Rightarrow> bool option" where
  "AiParamValueMapGetBool params k =
     (case map_of params k of Some (PBool b) \<Rightarrow> Some b | _ \<Rightarrow> None)"

definition AiParamValueMapGetInt :: "'f param_map \<Rightarrow> string \<Rightarrow> c_int option" where
  "AiParamValueMapGetInt params k =
     (case map_of params k of Some (PInt i) \<Rightarrow> Some i | _ \<Rightarrow> None)"

definition AiParamValueMapGetFlt :: "'f param_map \<Rightarrow> string \<Rightarrow> 'f option" where
  "AiParamValueMapGetFlt params k =
     (case map_of params k of Some (PFlt x) \<Rightarrow> Some x | _ \<Rightarrow> None)"


text \<open>The calls \<^verbatim>\<open>main.cpp\<close> makes on a \<^verbatim>\<open>UsdArnoldReader\<close>. \<^verbatim>\<open>SetMotionBlur(false)\<close>
  leaves the window to the default arguments of a declaration that is not in this
  file, hence the optional window. The two \<^verbatim>\<open>Read\<close> overloads are two constructors;
  the object path of the file overload is optional because \<^verbatim>\<open>scene_load\<close> omits it.\<close>

datatype 'f reader_call =
    SetProceduralParent handle
  | SetFrame 'f
  | SetDebug bool
  | SetThreadCount c_int
  | SetMotionBlur bool "('f \<times> 'f) option"
  | SetUniverse "handle option"
  | SetConvertPrimitives bool
  | SetRegistry
  | SetPurpose string
  | SetMask c_int
  | ReadCache c_int string
  | ReadFile string "string list option" "string option"

datatype writer_call =
    SetUsdStage string
  | WriterSetMask c_int
  | SetScope string
  | SetWriteAllAttributes bool
  | Write "handle option"

datatype 'f event =
    AiMsgError string
  | AiMsgWarning string
  | AiMsgInfo string
  | NewReader
  | Reader "'f reader_call"
  | DeleteReader
  | NewViewportRegistry viewport_mode "'f param_map option"
  | DeleteViewportRegistry
  | SdfLayerCreateNew string
  | UsdStageOpen
  | NewWriter
  | Writer writer_call
  | SaveRootLayer
  | DeleteWriter

text \<open>A reader object as \<^verbatim>\<open>procedural_init\<close> leaves it in \<^verbatim>\<open>*user_ptr\<close>: the calls
  made on it, in order, and the node list \<^verbatim>\<open>GetNodes()\<close> returns.\<close>

record 'f UsdArnoldReader =
  calls :: "'f reader_call list"
  GetNodes :: "handle list"

text \<open>What \<^verbatim>\<open>main.cpp\<close> uses and does not define: the default universe of the renderer
  (the one \<^verbatim>\<open>AiUniverseGetOptions\<close> and \<^verbatim>\<open>AiUniverseGetCamera\<close> answer for when given
  no universe), the helpers of \<^verbatim>\<open>utils/utils.h\<close>, the two functions of the stage
  library, the value \<^verbatim>\<open>AiNodeGetFlt\<close> yields on a null node, the node list a
  \<^verbatim>\<open>Read\<close> produces from the calls made on the reader, whether opening a stage on
  a new layer of a given name yields a stage (and not null), the strings of
  \<^verbatim>\<open>constant_strings.h\<close> and the version string.\<close>

record 'f host =
  default_universe :: "'f universe"
  ExpandEnvironmentVariables :: "string \<Rightarrow> string"
  TokenizePath :: "string \<Rightarrow> string \<Rightarrow> bool \<Rightarrow> string list"
  PathJoin :: "string \<Rightarrow> string \<Rightarrow> string"
  IsFileAccessible :: "string \<Rightarrow> bool"
  IsSupportedFile :: "string \<Rightarrow> bool"
  TfGetExtension :: "string \<Rightarrow> string"
  AiNodeGetFlt_null :: "string \<Rightarrow> 'f"
  ReadResult :: "'f reader_call list \<Rightarrow> handle list"
  StageOpens :: "string \<Rightarrow> bool"
  str_mask :: string
  str_scope :: string
  str_all_attributes :: string
  AI_VERSION :: string

definition AiUniverseGetOptions :: "'f host \<Rightarrow> 'f universe option \<Rightarrow> 'f options_node option" where
  "AiUniverseGetOptions h u = options (case u of None \<Rightarrow> default_universe h | Some v \<Rightarrow> v)"

definition AiUniverseGetCamera :: "'f host \<Rightarrow> 'f universe option \<Rightarrow> 'f camera_node option" where
  "AiUniverseGetCamera h u = camera (case u of None \<Rightarrow> default_universe h | Some v \<Rightarrow> v)"

section \<open>Search-path resolution\<close>

text \<open>The \<^verbatim>\<open>for\<close> loop of \<^verbatim>\<open>applyProceduralSearchPath\<close> over the path list: the first
  joined path that is accessible replaces the file name and ends the function.\<close>

fun searchPathLoop :: "'f host \<Rightarrow> string \<Rightarrow> string list \<Rightarrow> string" where
  "searchPathLoop h fname [] = fname"
| "searchPathLoop h fname (path # rest) =
     (let fullPath = PathJoin h path fname
      in if IsFileAccessible h fullPath then fullPath else searchPathLoop h fname rest)"

definition applyProceduralSearchPath :: "'f host \<Rightarrow> string \<Rightarrow> 'f universe option \<Rightarrow> string" where
  "applyProceduralSearchPath h fname u =
     (case AiUniverseGetOptions h u of
        None \<Rightarrow> fname
      | Some optionsNode \<Rightarrow>
          (let proceduralPath = procedural_searchpath optionsNode;
               expandedSearchpath = ExpandEnvironmentVariables h proceduralPath;
               pathList = TokenizePath h expandedSearchpath '':;'' True
           in if pathList \<noteq> [] then searchPathLoop h fname pathList else fname))"

section \<open>The procedural node\<close>

definition call :: "'f reader_call \<Rightarrow> 'f UsdArnoldReader \<Rightarrow> 'f UsdArnoldReader" where
  "call c r = r\<lparr>calls := calls r @ [c]\<rparr>"

text \<open>\<^verbatim>\<open>Read\<close> is a call like the others that also fills the node list.\<close>

definition Read :: "'f host \<Rightarrow> 'f reader_call \<Rightarrow> 'f UsdArnoldReader \<Rightarrow> 'f UsdArnoldReader" where
  "Read h c r = \<lparr>calls = calls r @ [c], GetNodes = ReadResult h (calls r @ [c])\<rparr>"

definition new_UsdArnoldReader :: "'f UsdArnoldReader" where
  "new_UsdArnoldReader = \<lparr>calls = [], GetNodes = []\<rparr>"

text \<open>The methods of the procedural return \<^verbatim>\<open>int\<close>, and the index of
  \<^verbatim>\<open>procedural_get_node\<close> is an \<^verbatim>\<open>int\<close>.\<close>

definition procedural_init :: "('f::ord) host \<Rightarrow> 'f proc_node \<Rightarrow> 'f UsdArnoldReader \<times> c_int" where
  "procedural_init h node =
     (let data = new_UsdArnoldReader;
          objectPath = object_path node;
          data = call (SetProceduralParent (node_handle node)) data;
          data = call (SetFrame (frame node)) data;
          data = call (SetDebug (debug node)) data;
          data = call (SetThreadCount (threads node)) data;
          renderCam = AiUniverseGetCamera h None;
          data =
            (case renderCam of
               None \<Rightarrow> call (SetMotionBlur False None) data
             | Some cam \<Rightarrow>
                 if shutter_start cam < shutter_end cam then
                   (let motionStart = shutter_start cam;
                        motionEnd = shutter_end cam
                    in call (SetMotionBlur (motionStart < motionEnd) (Some (motionStart, motionEnd))) data)
                 else call (SetMotionBlur False None) data);
          data =
            (if cache_id node \<noteq> 0 then Read h (ReadCache (cache_id node) objectPath) data
             else
               (let fname = applyProceduralSearchPath h (filename node) None
                in Read h (ReadFile fname (overrides node) (Some objectPath)) data))
      in (data, 1))"

text \<open>\<^verbatim>\<open>user_ptr\<close> is a reader or null. \<^verbatim>\<open>procedural_num_nodes\<close> returns the
  \<^verbatim>\<open>size_t\<close> size of the vector through its \<^verbatim>\<open>int\<close> return type: the size is
  narrowed to its low 32 bits. In \<^verbatim>\<open>GetNodes()[i]\<close> the \<^verbatim>\<open>int\<close> index becomes a
  \<^verbatim>\<open>size_t\<close>, so a negative index is beyond every vector; an index outside the
  vector is undefined behaviour in C++, and the model returns the fault. A returned
  \<open>None\<close> is \<^verbatim>\<open>NULL\<close>.\<close>

datatype fault = OutOfRange

definition procedural_num_nodes :: "'f UsdArnoldReader option \<Rightarrow> c_int" where
  "procedural_num_nodes user_ptr =
     (case user_ptr of Some data \<Rightarrow> word_of_nat (length (GetNodes data)) | None \<Rightarrow> 0)"

definition procedural_get_node :: "'f UsdArnoldReader option \<Rightarrow> c_int \<Rightarrow> fault + handle option" where
  "procedural_get_node user_ptr i =
     (case user_ptr of
        Some data \<Rightarrow>
          if 0 \<le> sint i \<and> sint i < int (length (GetNodes data))
          then Inr (Some (GetNodes data ! nat (sint i)))
          else Inl OutOfRange
      | None \<Rightarrow> Inr None)"

section \<open>Viewport display\<close>

text \<open>\<^verbatim>\<open>procedural_viewport\<close> is compiled for version 6 and later of the renderer.\<close>

text \<open>The first block of \<^verbatim>\<open>procedural_viewport\<close>: either the function returns false
  there (\<open>Inl\<close>, with the messages printed), or it goes on with a file name.\<close>

definition viewport_filename :: "'f host \<Rightarrow> 'f proc_node \<Rightarrow> 'f universe option \<Rightarrow> 'f event list + string" where
  "viewport_filename h node u =
     (let fname = filename node;
          hasOverrides = (case overrides node of None \<Rightarrow> False | Some a \<Rightarrow> 0 < length a)
      in if cache_id node = 0 then
           (if fname = [] then (if \<not> hasOverrides then Inl [] else Inr fname)
            else
              (let fname = applyProceduralSearchPath h fname u
               in if \<not> IsSupportedFile h fname
                  then Inl [AiMsgError (''[usd] File not supported : '' @ fname)]
                  else Inr fname))
         else Inr fname)"

text \<open>The test \<^verbatim>\<open>params && AiParamValueMapGetBool(params, "list", &listNodes) && listNodes\<close>.\<close>

definition listNodes :: "'f param_map option \<Rightarrow> bool" where
  "listNodes params =
     (case params of
        None \<Rightarrow> False
      | Some p \<Rightarrow> (case AiParamValueMapGetBool p ''list'' of None \<Rightarrow> False | Some b \<Rightarrow> b))"

definition procedural_viewport ::
  "'f host \<Rightarrow> 'f proc_node \<Rightarrow> 'f universe option \<Rightarrow> viewport_mode \<Rightarrow> 'f param_map option
     \<Rightarrow> bool \<times> 'f event list" where
  "procedural_viewport h node u mode params =
     (case viewport_filename h node u of
        Inl msgs \<Rightarrow> (False, msgs)
      | Inr fname \<Rightarrow>
          (let objectPath = object_path node;
               setup =
                 [NewReader,
                  Reader (SetFrame (frame node)),
                  Reader (SetUniverse (map_option universe_handle u)),
                  Reader (SetThreadCount (threads node))];
               vpRegistry = \<not> listNodes params;
               display =
                 (if listNodes params then [Reader (SetConvertPrimitives False)]
                  else [NewViewportRegistry mode params, Reader SetRegistry,
                        Reader (SetPurpose ''proxy'')]);
               reading =
                 (if cache_id node \<noteq> 0 then [Reader (ReadCache (cache_id node) objectPath)]
                  else [Reader (ReadFile fname (overrides node) (Some objectPath))]);
               cleanup = (if vpRegistry then [DeleteViewportRegistry] else []) @ [DeleteReader]
           in (True, setup @ display @ reading @ cleanup)))"

section \<open>The scene format\<close>

text \<open>The scene-format functions are compiled when the renderer has the scene-format
  interface.\<close>

definition scene_load ::
  "'f host \<Rightarrow> 'f universe option \<Rightarrow> string \<Rightarrow> 'f param_map option \<Rightarrow> bool \<times> 'f event list" where
  "scene_load h u fname params =
     (if \<not> IsSupportedFile h fname
      then (False, [AiMsgError (''[usd] File not supported : '' @ fname)])
      else
        (let frame0 =
               (case AiUniverseGetOptions h None of
                  None \<Rightarrow> AiNodeGetFlt_null h ''frame''
                | Some optionsNode \<Rightarrow> options_frame optionsNode);
             frame1 =
               (case params of
                  None \<Rightarrow> frame0
                | Some p \<Rightarrow> (case AiParamValueMapGetFlt p ''frame'' of None \<Rightarrow> frame0 | Some x \<Rightarrow> x));
             threadCount =
               (case params of
                  None \<Rightarrow> 0
                | Some p \<Rightarrow> (case AiParamValueMapGetInt p ''threads'' of None \<Rightarrow> 0 | Some n \<Rightarrow> n));
             masking =
               (case params of
                  None \<Rightarrow> []
                | Some p \<Rightarrow>
                    (case AiParamValueMapGetInt p ''mask'' of
                       None \<Rightarrow> []
                     | Some m \<Rightarrow> [Reader (SetMask m)]))
         in (True,
             [NewReader, Reader (SetUniverse (map_option universe_handle u))] @ masking @
             [Reader (SetFrame frame1), Reader (SetThreadCount threadCount),
              Reader (ReadFile fname None None), DeleteReader])))"





record scene_format =
  format_methods :: string
  extensions :: "string list"
  format_name :: string
  description :: string
  version :: string

text \<open>The array \<^verbatim>\<open>extensions\<close> is the list of its entries before the terminating
  \<^verbatim>\<open>NULL\<close>.\<close>

definition scene_format_loader :: "'f host \<Rightarrow> scene_format \<Rightarrow> scene_format \<times> bool" where
  "scene_format_loader h format =
     (format\<lparr>format_methods := ''UsdSceneFormatMtd'',
             extensions := [''.usd'', ''.usda'', ''.usdc''],
             format_name := ''USD'',
             description := ''Load and write USD files in Arnold'',
             version := AI_VERSION h\<rparr>,
      True)"

section \<open>Reading traces\<close>

text \<open>Projections of a trace: the \<^verbatim>\<open>Read\<close> calls among the calls on a reader, the
  calls on the reader among the events, the arguments of the \<^verbatim>\<open>SetMotionBlur\<close>
  calls, the events that set up what the viewport displays, and the calls that
  say where the reader creates its nodes.\<close>

fun is_Read :: "'f reader_call \<Rightarrow> bool" where
  "is_Read (ReadCache _ _) = True"
| "is_Read (ReadFile _ _ _) = True"
| "is_Read _ = False"

fun motionBlurCall :: "'f reader_call \<Rightarrow> (bool \<times> ('f \<times> 'f) option) option" where
  "motionBlurCall (SetMotionBlur en win) = Some (en, win)"
| "motionBlurCall _ = None"

definition readCalls :: "'f reader_call list \<Rightarrow> 'f reader_call list" where
  "readCalls cs = filter is_Read cs"

fun readerCall :: "'f event \<Rightarrow> 'f reader_call option" where
  "readerCall (Reader c) = Some c"
| "readerCall _ = None"

definition readerCalls :: "'f event list \<Rightarrow> 'f reader_call list" where
  "readerCalls evs = List.map_filter readerCall evs"

definition motionBlurCalls :: "'f reader_call list \<Rightarrow> (bool \<times> ('f \<times> 'f) option) list" where
  "motionBlurCalls cs = List.map_filter motionBlurCall cs"


fun targetCall :: "'f reader_call \<Rightarrow> bool" where
  "targetCall (SetProceduralParent _) = True"
| "targetCall (SetUniverse _) = True"
| "targetCall _ = False"

text \<open>The calls that make the caller's production scene the place where the reader
  creates its nodes. The production scene is the default universe of the renderer,
  the one the procedural node lives in: a procedural parent puts the nodes there,
  and so does a target universe that is the default one, by its handle or as the
  null pointer (which the renderer reads as the default universe, as in
  \<open>AiUniverseGetOptions\<close>). The first argument is the handle of the default
  universe.\<close>

fun productionTarget :: "handle \<Rightarrow> 'f reader_call \<Rightarrow> bool" where
  "productionTarget d (SetProceduralParent _) = True"
| "productionTarget d (SetUniverse None) = True"
| "productionTarget d (SetUniverse (Some x)) = (x = d)"
| "productionTarget d _ = False"

section \<open>An example host\<close>

text \<open>A concrete host on which the functions are evaluated. Its tokenizer cuts the
  search path at every separator character and keeps the non-empty pieces, its
  join puts a slash between directory and file name, its extension is what follows
  the last dot, and it supports the three extensions the scene format declares.\<close>

fun splitOn :: "string \<Rightarrow> string \<Rightarrow> string \<Rightarrow> string list" where
  "splitOn sep cur [] = (if cur = [] then [] else [cur])"
| "splitOn sep cur (c # cs) =
     (if c \<in> set sep then (if cur = [] then [] else [cur]) @ splitOn sep [] cs
      else splitOn sep (cur @ [c]) cs)"

definition extensionOf :: "string \<Rightarrow> string" where
  "extensionOf s = (if CHR ''.'' \<in> set s then rev (takeWhile (\<lambda>c. c \<noteq> CHR ''.'') (rev s)) else [])"

definition example_host :: "real host" where
  "example_host =
     \<lparr>default_universe =
        \<lparr>universe_handle = 0,
         options = Some \<lparr>procedural_searchpath = ''/assets:/shots;/lib'', options_frame = 24\<rparr>,
         camera = Some \<lparr>shutter_start = - 1 / 4, shutter_end = 1 / 4\<rparr>\<rparr>,
      ExpandEnvironmentVariables = (\<lambda>s. s),
      TokenizePath = (\<lambda>s sep filepath. splitOn sep [] s),
      PathJoin = (\<lambda>dir f. dir @ ''/'' @ f),
      IsFileAccessible = (\<lambda>p. p \<in> set [''/shots/a.usd'', ''/lib/a.usd'']),
      IsSupportedFile = (\<lambda>f. extensionOf f \<in> set [''usd'', ''usda'', ''usdc'']),
      TfGetExtension = extensionOf,
      AiNodeGetFlt_null = (\<lambda>k. 0),
      ReadResult = (\<lambda>cs. [1, 2, 3]),
      StageOpens = (\<lambda>f. True),
      str_mask = ''mask'',
      str_scope = ''scope'',
      str_all_attributes = ''all_attributes'',
      AI_VERSION = ''6.0.2.0''\<rparr>"



definition example_node :: "real proc_node" where
  "example_node =
     \<lparr>node_handle = 11, filename = ''a.usd'', object_path = ''/root'', frame = 3,
      debug = False, threads = 0, overrides = Some [], cache_id = 0\<rparr>"



definition example_viewport_universe :: "real universe" where
  "example_viewport_universe = \<lparr>universe_handle = 5, options = None, camera = None\<rparr>"

definition example_format :: scene_format where
  "example_format =
     \<lparr>format_methods = [], extensions = [], format_name = [], description = [], version = []\<rparr>"

definition example_reader :: "real UsdArnoldReader" where
  "example_reader = fst (procedural_init example_host example_node)"

definition huge_reader :: "real UsdArnoldReader" where
  "huge_reader = \<lparr>calls = [], GetNodes = replicate (2 ^ 31) 0\<rparr>"

section \<open>Procedural initialization\<close>

lemma calls_procedural_init:
  "calls (fst (procedural_init h node)) =
     [SetProceduralParent (node_handle node), SetFrame (frame node), SetDebug (debug node),
      SetThreadCount (threads node),
      (case AiUniverseGetCamera h None of
         None \<Rightarrow> SetMotionBlur False None
       | Some cam \<Rightarrow>
           if shutter_start cam < shutter_end cam
           then SetMotionBlur True (Some (shutter_start cam, shutter_end cam))
           else SetMotionBlur False None),
      (if cache_id node \<noteq> 0 then ReadCache (cache_id node) (object_path node)
       else ReadFile (applyProceduralSearchPath h (filename node) None) (overrides node)
              (Some (object_path node)))]"
  by (simp add: procedural_init_def Let_def call_def Read_def new_UsdArnoldReader_def
      split: option.split)

text \<open>
  C1. Procedural initialization makes exactly one \<^verbatim>\<open>Read\<close> call on the reader it
  creates. With a non-zero \<open>cache_id\<close> it is the cache overload, with that cache
  handle and the object path, and the result of the initialization does not depend
  on the node's \<open>filename\<close>. With \<open>cache_id\<close> zero it is the file overload, with
  the node's file name after search-path resolution (against the default universe),
  the node's \<open>overrides\<close> array and the object path.
\<close>
theorem procedural_init_read_source:
  "(cache_id node \<noteq> 0 \<longrightarrow>
      readCalls (calls (fst (procedural_init h node))) =
        [ReadCache (cache_id node) (object_path node)] \<and>
      (\<forall>f. procedural_init h (node\<lparr>filename := f\<rparr>) = procedural_init h node)) \<and>
   (cache_id node = 0 \<longrightarrow>
      readCalls (calls (fst (procedural_init h node))) =
        [ReadFile (applyProceduralSearchPath h (filename node) None) (overrides node)
           (Some (object_path node))])"
proof -
  have "procedural_init h (node\<lparr>filename := f\<rparr>) = procedural_init h node"
    if "cache_id node \<noteq> 0" for f
    using that by (simp add: procedural_init_def Let_def)
  moreover have "readCalls (calls (fst (procedural_init h node))) =
      [if cache_id node \<noteq> 0 then ReadCache (cache_id node) (object_path node)
       else ReadFile (applyProceduralSearchPath h (filename node) None) (overrides node)
              (Some (object_path node))]"
    unfolding calls_procedural_init readCalls_def by (simp split: option.split)
  ultimately show ?thesis by simp
qed

theorem procedural_init_read_source_witness:
  "cache_id (example_node\<lparr>cache_id := 7\<rparr>) \<noteq> 0 \<and>
   readCalls (calls (fst (procedural_init example_host (example_node\<lparr>cache_id := 7\<rparr>)))) =
     [ReadCache 7 ''/root''] \<and>
   procedural_init example_host (example_node\<lparr>cache_id := 7, filename := ''b.usd''\<rparr>) =
     procedural_init example_host (example_node\<lparr>cache_id := 7\<rparr>) \<and>
   cache_id example_node = 0 \<and>
   readCalls (calls (fst (procedural_init example_host example_node))) =
     [ReadFile ''/shots/a.usd'' (Some []) (Some ''/root'')]"
  using procedural_init_read_source [of "example_node\<lparr>cache_id := 7\<rparr>" example_host]
    procedural_init_read_source [of example_node example_host]
  by (simp add: example_node_def example_host_def applyProceduralSearchPath_def
      AiUniverseGetOptions_def)

text \<open>
  C2. Procedural initialization makes exactly one \<^verbatim>\<open>SetMotionBlur\<close> call. When the
  default universe has a render camera and its \<open>shutter_start\<close> is less than its
  \<open>shutter_end\<close>, the call enables motion blur with the window
  \<open>(shutter_start, shutter_end)\<close>; in every other case the call disables it and
  passes no window. So motion blur is enabled exactly when such a camera exists, and
  an enabled window has its start below its end.
\<close>
theorem procedural_init_motion_blur:
  fixes h :: "('f::ord) host"
  shows
  "(\<forall>cam. AiUniverseGetCamera h None = Some cam \<and> shutter_start cam < shutter_end cam \<longrightarrow>
      motionBlurCalls (calls (fst (procedural_init h node))) =
        [(True, Some (shutter_start cam, shutter_end cam))]) \<and>
   (\<not> (\<exists>cam. AiUniverseGetCamera h None = Some cam \<and> shutter_start cam < shutter_end cam) \<longrightarrow>
      motionBlurCalls (calls (fst (procedural_init h node))) = [(False, None)]) \<and>
   (\<forall>a b. (True, Some (a, b)) \<in> set (motionBlurCalls (calls (fst (procedural_init h node)))) \<longrightarrow>
      a < b)"
  unfolding calls_procedural_init motionBlurCalls_def
  by (auto simp: List.map_filter_simps split: option.split)

theorem procedural_init_motion_blur_witness:
  "AiUniverseGetCamera example_host None = Some \<lparr>shutter_start = - 1 / 4, shutter_end = 1 / 4\<rparr> \<and>
   motionBlurCalls (calls (fst (procedural_init example_host example_node))) =
     [(True, Some (- 1 / 4, 1 / 4))] \<and>
   AiUniverseGetCamera (example_host\<lparr>default_universe := \<lparr>universe_handle = 0, options = None, camera = None\<rparr>\<rparr>) None = None \<and>
   motionBlurCalls (calls (fst (procedural_init
      (example_host\<lparr>default_universe := \<lparr>universe_handle = 0, options = None, camera = None\<rparr>\<rparr>) example_node))) =
     [(False, None)]"
  using procedural_init_motion_blur [of example_host example_node]
    procedural_init_motion_blur [of "example_host\<lparr>default_universe := \<lparr>universe_handle = 0, options = None, camera = None\<rparr>\<rparr>" example_node]
  by (simp add: example_host_def AiUniverseGetCamera_def)

section \<open>Search-path resolution: first match wins\<close>

lemma searchPathLoop_none:
  "\<forall>d \<in> set dirs. \<not> IsFileAccessible h (PathJoin h d fname) \<Longrightarrow> searchPathLoop h fname dirs = fname"
  by (induction dirs) simp_all

lemma searchPathLoop_first:
  "i < length dirs \<Longrightarrow> IsFileAccessible h (PathJoin h (dirs ! i) fname) \<Longrightarrow>
   \<forall>j < i. \<not> IsFileAccessible h (PathJoin h (dirs ! j) fname) \<Longrightarrow>
   searchPathLoop h fname dirs = PathJoin h (dirs ! i) fname"
proof (induction dirs arbitrary: i)
  case Nil
  then show ?case by simp
next
  case (Cons d dirs)
  show ?case
  proof (cases i)
    case 0
    with Cons.prems show ?thesis by simp
  next
    case (Suc k)
    from Cons.prems(3) Suc have head: "\<not> IsFileAccessible h (PathJoin h d fname)"
      by force
    from Cons.prems(3) Suc have rest: "\<forall>j < k. \<not> IsFileAccessible h (PathJoin h (dirs ! j) fname)"
      by force
    from Cons.prems(1,2) Suc have "k < length dirs" "IsFileAccessible h (PathJoin h (dirs ! k) fname)"
      by simp_all
    from Cons.IH [OF this rest] head Suc show ?thesis by simp
  qed
qed

lemma example_dirs:
  "TokenizePath example_host
     (ExpandEnvironmentVariables example_host
        (procedural_searchpath
           \<lparr>procedural_searchpath = ''/assets:/shots;/lib'', options_frame = 24::real\<rparr>))
     '':;'' True =
   [''/assets'', ''/shots'', ''/lib'']"
  by (simp add: example_host_def)

text \<open>
  C3. Search-path resolution. Let \<open>dirs\<close> be what tokenizing the expanded
  \<open>procedural_searchpath\<close> of the universe's options node at \<open>:\<close> and \<open>;\<close> gives.
  The result is the join of the file name with the first directory of \<open>dirs\<close> whose
  join is an accessible file. The file name comes back unchanged when the universe
  has no options node, when \<open>dirs\<close> is empty, and when no directory of \<open>dirs\<close> gives
  an accessible file.
\<close>
theorem applyProceduralSearchPath_first_match:
  "(AiUniverseGetOptions h u = None \<longrightarrow> applyProceduralSearchPath h fname u = fname) \<and>
   (\<forall>optionsNode dirs.
      AiUniverseGetOptions h u = Some optionsNode \<and>
      dirs = TokenizePath h (ExpandEnvironmentVariables h (procedural_searchpath optionsNode))
               '':;'' True \<longrightarrow>
      (dirs = [] \<longrightarrow> applyProceduralSearchPath h fname u = fname) \<and>
      ((\<forall>d \<in> set dirs. \<not> IsFileAccessible h (PathJoin h d fname)) \<longrightarrow>
         applyProceduralSearchPath h fname u = fname) \<and>
      (\<forall>i < length dirs.
         IsFileAccessible h (PathJoin h (dirs ! i) fname) \<and>
         (\<forall>j < i. \<not> IsFileAccessible h (PathJoin h (dirs ! j) fname)) \<longrightarrow>
         applyProceduralSearchPath h fname u = PathJoin h (dirs ! i) fname))"
proof (intro conjI allI impI)
  assume "AiUniverseGetOptions h u = None"
  then show "applyProceduralSearchPath h fname u = fname"
    by (simp add: applyProceduralSearchPath_def)
next
  fix optionsNode dirs
  assume a: "AiUniverseGetOptions h u = Some optionsNode \<and>
      dirs = TokenizePath h (ExpandEnvironmentVariables h (procedural_searchpath optionsNode))
               '':;'' True"
  then have eq: "applyProceduralSearchPath h fname u =
      (if dirs \<noteq> [] then searchPathLoop h fname dirs else fname)"
    by (simp add: applyProceduralSearchPath_def Let_def)
  {
    assume "dirs = []"
    with eq show "applyProceduralSearchPath h fname u = fname" by simp
  next
    assume "\<forall>d \<in> set dirs. \<not> IsFileAccessible h (PathJoin h d fname)"
    with eq show "applyProceduralSearchPath h fname u = fname"
      by (simp add: searchPathLoop_none)
  next
    fix i
    assume "i < length dirs"
      and "IsFileAccessible h (PathJoin h (dirs ! i) fname) \<and>
         (\<forall>j < i. \<not> IsFileAccessible h (PathJoin h (dirs ! j) fname))"
    then have "searchPathLoop h fname dirs = PathJoin h (dirs ! i) fname" and "dirs \<noteq> []"
      by (auto intro: searchPathLoop_first)
    with eq show "applyProceduralSearchPath h fname u = PathJoin h (dirs ! i) fname" by simp
  }
qed

theorem applyProceduralSearchPath_first_match_witness:
  "AiUniverseGetOptions example_host None =
     Some \<lparr>procedural_searchpath = ''/assets:/shots;/lib'', options_frame = 24\<rparr> \<and>
   TokenizePath example_host
     (ExpandEnvironmentVariables example_host ''/assets:/shots;/lib'') '':;'' True =
     [''/assets'', ''/shots'', ''/lib''] \<and>
   \<not> IsFileAccessible example_host (PathJoin example_host ''/assets'' ''a.usd'') \<and>
   IsFileAccessible example_host (PathJoin example_host ''/shots'' ''a.usd'') \<and>
   applyProceduralSearchPath example_host ''a.usd'' None = ''/shots/a.usd'' \<and>
   applyProceduralSearchPath example_host ''b.usd'' None = ''b.usd'' \<and>
   applyProceduralSearchPath
     (example_host\<lparr>default_universe := \<lparr>universe_handle = 0, options = None, camera = None\<rparr>\<rparr>)
     ''a.usd'' None = ''a.usd''"
proof -
  let ?o = "\<lparr>procedural_searchpath = ''/assets:/shots;/lib'', options_frame = 24::real\<rparr>"
  let ?dirs = "[''/assets'', ''/shots'', ''/lib'']"
  have opts: "AiUniverseGetOptions example_host None = Some ?o"
    by (simp add: AiUniverseGetOptions_def example_host_def)
  have acc0: "\<not> IsFileAccessible example_host (PathJoin example_host ''/assets'' ''a.usd'')"
    and acc1: "IsFileAccessible example_host (PathJoin example_host ''/shots'' ''a.usd'')"
    by (simp_all add: example_host_def)
  have noneb: "\<forall>d \<in> set ?dirs. \<not> IsFileAccessible example_host (PathJoin example_host d ''b.usd'')"
    by (simp add: example_host_def)
  have before: "\<forall>j < (1::nat). \<not> IsFileAccessible example_host (PathJoin example_host (?dirs ! j) ''a.usd'')"
    using acc0 by simp
  note T = applyProceduralSearchPath_first_match [of example_host None, THEN conjunct2, rule_format,
      OF conjI [OF opts example_dirs [symmetric]]]
  have a: "applyProceduralSearchPath example_host ''a.usd'' None = ''/shots/a.usd''"
    using T [of "''a.usd''", THEN conjunct2, THEN conjunct2, rule_format, of 1] acc1 before
    by (simp add: example_host_def)
  have b: "applyProceduralSearchPath example_host ''b.usd'' None = ''b.usd''"
    using T [of "''b.usd''", THEN conjunct2, THEN conjunct1] noneb
    by simp
  have c: "applyProceduralSearchPath
     (example_host\<lparr>default_universe := \<lparr>universe_handle = 0, options = None, camera = None\<rparr>\<rparr>)
     ''a.usd'' None = ''a.usd''"
    using applyProceduralSearchPath_first_match
      [of "example_host\<lparr>default_universe := \<lparr>universe_handle = 0, options = None, camera = None\<rparr>\<rparr>"
          None "''a.usd''"]
    by (simp add: AiUniverseGetOptions_def)
  from opts example_dirs acc0 acc1 a b c show ?thesis by simp
qed

section \<open>Writing and loading a scene\<close>










text \<open>
  C5. Loading a scene from a name that is not supported prints an error and returns
  false, and the trace holds nothing else: no reader is constructed. For a supported
  name the function returns true, its trace starts with the construction of a reader,
  and the one \<^verbatim>\<open>Read\<close> call, the last call on the reader, reads that file.
\<close>
theorem scene_load_gate:
  "(\<not> IsSupportedFile h fname \<longrightarrow>
      scene_load h u fname params =
        (False, [AiMsgError (''[usd] File not supported : '' @ fname)])) \<and>
   (IsSupportedFile h fname \<longrightarrow>
      fst (scene_load h u fname params) \<and>
      hd (snd (scene_load h u fname params)) = NewReader \<and>
      readCalls (readerCalls (snd (scene_load h u fname params))) = [ReadFile fname None None] \<and>
      last (readerCalls (snd (scene_load h u fname params))) = ReadFile fname None None)"
  by (simp add: scene_load_def Let_def readCalls_def readerCalls_def List.map_filter_simps
      split: option.split)

theorem scene_load_gate_witness:
  "\<not> IsSupportedFile example_host ''a.abc'' \<and>
   scene_load example_host None ''a.abc'' None =
     (False, [AiMsgError ''[usd] File not supported : a.abc'']) \<and>
   IsSupportedFile example_host ''a.usd'' \<and>
   scene_load example_host None ''a.usd'' (Some [(''mask'', PInt 5), (''frame'', PFlt 2)]) =
     (True, [NewReader, Reader (SetUniverse None), Reader (SetMask 5), Reader (SetFrame 2),
             Reader (SetThreadCount 0), Reader (ReadFile ''a.usd'' None None), DeleteReader])"
proof -
  have s: "\<not> IsSupportedFile example_host ''a.abc''" "IsSupportedFile example_host ''a.usd''"
    by (simp_all add: example_host_def extensionOf_def)
  have "scene_load example_host None ''a.abc'' None =
     (False, [AiMsgError ''[usd] File not supported : a.abc''])"
    using scene_load_gate [of example_host "''a.abc''" None None] s by simp
  moreover have "scene_load example_host None ''a.usd'' (Some [(''mask'', PInt 5), (''frame'', PFlt 2)]) =
     (True, [NewReader, Reader (SetUniverse None), Reader (SetMask 5), Reader (SetFrame 2),
             Reader (SetThreadCount 0), Reader (ReadFile ''a.usd'' None None), DeleteReader])"
    using scene_load_gate [of example_host "''a.usd''" None "Some [(''mask'', PInt 5), (''frame'', PFlt 2)]"] s
    by (simp add: scene_load_def AiParamValueMapGetInt_def AiParamValueMapGetFlt_def
        AiUniverseGetOptions_def example_host_def)
  ultimately show ?thesis using s by simp
qed

section \<open>The viewport\<close>


lemma procedural_viewport_false:
  "\<not> fst (procedural_viewport h node u mode params) \<Longrightarrow>
   \<exists>msgs. viewport_filename h node u = Inl msgs \<and> procedural_viewport h node u mode params = (False, msgs)"
  by (simp add: procedural_viewport_def Let_def split: sum.splits)

lemma procedural_viewport_true:
  "fst (procedural_viewport h node u mode params) \<Longrightarrow>
   \<exists>fname. viewport_filename h node u = Inr fname \<and>
     snd (procedural_viewport h node u mode params) =
       [NewReader, Reader (SetFrame (frame node)),
        Reader (SetUniverse (map_option universe_handle u)),
        Reader (SetThreadCount (threads node))] @
       (if listNodes params then [Reader (SetConvertPrimitives False)]
        else [NewViewportRegistry mode params, Reader SetRegistry, Reader (SetPurpose ''proxy'')]) @
       [Reader (if cache_id node \<noteq> 0 then ReadCache (cache_id node) (object_path node)
                else ReadFile fname (overrides node) (Some (object_path node)))] @
       (if listNodes params then [] else [DeleteViewportRegistry]) @ [DeleteReader]"
  by (auto simp: procedural_viewport_def Let_def split: sum.splits)

lemma viewport_filename_msgs:
  "viewport_filename h node u = Inl msgs \<Longrightarrow> msgs = [] \<or> (\<exists>s. msgs = [AiMsgError s])"
  by (auto simp: viewport_filename_def Let_def split: if_splits)




lemma productionTarget_viewport:
  "viewport_filename h node u = Inr fname \<Longrightarrow>
   filter (productionTarget d) (readerCalls (snd (procedural_viewport h node u mode params))) =
     filter (productionTarget d) [SetUniverse (map_option universe_handle u)]"
  by (simp add: procedural_viewport_def Let_def readerCalls_def List.map_filter_simps)

text \<open>
  C7. In a viewport invocation no procedural parent is ever set on the reader, and
  the universe passed to the invocation is the only target it is given: the calls
  that choose a target are exactly \<^verbatim>\<open>SetUniverse(universe)\<close> when a reader is created,
  made before the \<^verbatim>\<open>Read\<close>, and none otherwise. When the universe passed is a
  universe other than the default universe of the renderer, no call of the
  invocation makes the production scene the target. In procedural initialization
  the only call that chooses a target is \<^verbatim>\<open>SetProceduralParent(node)\<close>.
\<close>

theorem procedural_viewport_target:
  fixes h :: "('f::ord) host"
  shows
  "filter targetCall (readerCalls (snd (procedural_viewport h node u mode params))) =
     (if fst (procedural_viewport h node u mode params)
      then [SetUniverse (map_option universe_handle u)] else []) \<and>
   (fst (procedural_viewport h node u mode params) \<longrightarrow>
      SetUniverse (map_option universe_handle u) \<in>
        set (takeWhile (\<lambda>c. \<not> is_Read c) (readerCalls (snd (procedural_viewport h node u mode params))))) \<and>
   (\<forall>v. u = Some v \<and> universe_handle v \<noteq> universe_handle (default_universe h) \<longrightarrow>
      filter (productionTarget (universe_handle (default_universe h)))
        (readerCalls (snd (procedural_viewport h node u mode params))) = []) \<and>
   filter targetCall (calls (fst (procedural_init h node))) =
     [SetProceduralParent (node_handle node)]"
proof -
  have init: "filter targetCall (calls (fst (procedural_init h node))) =
     [SetProceduralParent (node_handle node)]"
    unfolding calls_procedural_init by (simp split: option.split)
  show ?thesis
  proof (cases "fst (procedural_viewport h node u mode params)")
    case True
    from procedural_viewport_true [OF True] obtain fname where
      vf: "viewport_filename h node u = Inr fname" and
      "snd (procedural_viewport h node u mode params) =
       [NewReader, Reader (SetFrame (frame node)),
        Reader (SetUniverse (map_option universe_handle u)),
        Reader (SetThreadCount (threads node))] @
       (if listNodes params then [Reader (SetConvertPrimitives False)]
        else [NewViewportRegistry mode params, Reader SetRegistry, Reader (SetPurpose ''proxy'')]) @
       [Reader (if cache_id node \<noteq> 0 then ReadCache (cache_id node) (object_path node)
                else ReadFile fname (overrides node) (Some (object_path node)))] @
       (if listNodes params then [] else [DeleteViewportRegistry]) @ [DeleteReader]"
      by blast
    with True init productionTarget_viewport [OF vf] show ?thesis
      by (auto simp: readerCalls_def List.map_filter_simps)
  next
    case False
    from procedural_viewport_false [OF False] obtain msgs where
      m: "viewport_filename h node u = Inl msgs"
        "procedural_viewport h node u mode params = (False, msgs)"
      by blast
    from viewport_filename_msgs [OF m(1)] m(2) False init show ?thesis
      by (auto simp: readerCalls_def List.map_filter_simps)
  qed
qed

theorem procedural_viewport_target_witness:
  "universe_handle example_viewport_universe \<noteq> universe_handle (default_universe example_host) \<and>
   fst (procedural_viewport example_host example_node (Some example_viewport_universe) AI_PROC_BOXES None) \<and>
   readerCalls (snd (procedural_viewport example_host example_node (Some example_viewport_universe)
      AI_PROC_BOXES None)) =
     [SetFrame 3, SetUniverse (Some 5), SetThreadCount 0, SetRegistry, SetPurpose ''proxy'',
      ReadFile ''a.usd'' (Some []) (Some ''/root'')] \<and>
   SetUniverse (Some 5) \<in>
     set (takeWhile (\<lambda>c. \<not> is_Read c)
       (readerCalls (snd (procedural_viewport example_host example_node
          (Some example_viewport_universe) AI_PROC_BOXES None)))) \<and>
   filter (productionTarget (universe_handle (default_universe example_host)))
     (readerCalls (snd (procedural_viewport example_host example_node
        (Some example_viewport_universe) AI_PROC_BOXES None))) = []"
proof -
  have d: "universe_handle example_viewport_universe \<noteq> universe_handle (default_universe example_host)"
    by (simp add: example_viewport_universe_def example_host_def)
  have vf: "viewport_filename example_host example_node (Some example_viewport_universe) = Inr ''a.usd''"
    by (simp add: viewport_filename_def example_node_def applyProceduralSearchPath_def
        AiUniverseGetOptions_def example_host_def extensionOf_def example_viewport_universe_def)
  have t: "fst (procedural_viewport example_host example_node (Some example_viewport_universe) AI_PROC_BOXES None)"
    by (simp add: procedural_viewport_def vf Let_def)
  have r: "readerCalls (snd (procedural_viewport example_host example_node (Some example_viewport_universe)
      AI_PROC_BOXES None)) =
     [SetFrame 3, SetUniverse (Some 5), SetThreadCount 0, SetRegistry, SetPurpose ''proxy'',
      ReadFile ''a.usd'' (Some []) (Some ''/root'')]"
    unfolding procedural_viewport_def vf
    by (simp add: Let_def listNodes_def readerCalls_def List.map_filter_simps
        example_node_def example_viewport_universe_def)
  from procedural_viewport_target [of example_host example_node "Some example_viewport_universe"
      AI_PROC_BOXES None] d t
  have p: "filter (productionTarget (universe_handle (default_universe example_host)))
     (readerCalls (snd (procedural_viewport example_host example_node
        (Some example_viewport_universe) AI_PROC_BOXES None))) = []"
    and w: "SetUniverse (map_option universe_handle (Some example_viewport_universe)) \<in>
     set (takeWhile (\<lambda>c. \<not> is_Read c)
       (readerCalls (snd (procedural_viewport example_host example_node
          (Some example_viewport_universe) AI_PROC_BOXES None))))"
    by blast+
  from w have w': "SetUniverse (Some 5) \<in>
     set (takeWhile (\<lambda>c. \<not> is_Read c)
       (readerCalls (snd (procedural_viewport example_host example_node
          (Some example_viewport_universe) AI_PROC_BOXES None))))"
    by (simp add: example_viewport_universe_def)
  from d t r p w' show ?thesis by blast
qed

theorem procedural_viewport_target_counterexample:
  "fst (procedural_viewport example_host example_node None AI_PROC_BOXES None) \<and>
   filter (productionTarget (universe_handle (default_universe example_host)))
     (readerCalls (snd (procedural_viewport example_host example_node None AI_PROC_BOXES None))) =
     [SetUniverse None] \<and>
   fst (procedural_viewport example_host example_node (Some (default_universe example_host))
     AI_PROC_BOXES None) \<and>
   filter (productionTarget (universe_handle (default_universe example_host)))
     (readerCalls (snd (procedural_viewport example_host example_node
        (Some (default_universe example_host)) AI_PROC_BOXES None))) =
     [SetUniverse (Some 0)]"
proof -
  have vf: "viewport_filename example_host example_node None = Inr ''/shots/a.usd''"
    "viewport_filename example_host example_node (Some (default_universe example_host)) =
       Inr ''/shots/a.usd''"
    by (simp_all add: viewport_filename_def example_node_def applyProceduralSearchPath_def
        AiUniverseGetOptions_def example_host_def extensionOf_def)
  have t: "fst (procedural_viewport example_host example_node None AI_PROC_BOXES None)"
    "fst (procedural_viewport example_host example_node (Some (default_universe example_host))
       AI_PROC_BOXES None)"
    by (simp_all add: procedural_viewport_def vf Let_def)
  from t productionTarget_viewport [OF vf(1)] productionTarget_viewport [OF vf(2)]
  show ?thesis by (simp add: example_host_def)
qed

text \<open>
  C9. A viewport invocation with cache id zero. With an empty file name and an
  absent or empty overrides array it returns false with an empty trace. With an
  empty file name and at least one override it returns true and reads the empty file
  name with the overrides. With a non-empty file name that is not supported after
  search-path resolution it prints an error and returns false, and the trace holds
  nothing else: no reader is constructed.
\<close>
theorem procedural_viewport_filename_check:
  assumes "cache_id node = 0"
  shows "(filename node = [] \<and> (overrides node = None \<or> overrides node = Some []) \<longrightarrow>
            procedural_viewport h node u mode params = (False, [])) \<and>
         (filename node = [] \<and> (\<exists>x xs. overrides node = Some (x # xs)) \<longrightarrow>
            fst (procedural_viewport h node u mode params) \<and>
            readCalls (readerCalls (snd (procedural_viewport h node u mode params))) =
              [ReadFile [] (overrides node) (Some (object_path node))]) \<and>
         (filename node \<noteq> [] \<and>
          \<not> IsSupportedFile h (applyProceduralSearchPath h (filename node) u) \<longrightarrow>
            procedural_viewport h node u mode params =
              (False,
               [AiMsgError (''[usd] File not supported : '' @
                  applyProceduralSearchPath h (filename node) u)]))"
proof (intro conjI impI)
  assume "filename node = [] \<and> (overrides node = None \<or> overrides node = Some [])"
  with assms have "viewport_filename h node u = Inl []"
    by (auto simp: viewport_filename_def)
  then show "procedural_viewport h node u mode params = (False, [])"
    by (simp add: procedural_viewport_def)
next
  assume a: "filename node = [] \<and> (\<exists>x xs. overrides node = Some (x # xs))"
  with assms have vf: "viewport_filename h node u = Inr []"
    by (auto simp: viewport_filename_def)
  then show "fst (procedural_viewport h node u mode params)"
    by (simp add: procedural_viewport_def Let_def)
  from vf assms show "readCalls (readerCalls (snd (procedural_viewport h node u mode params))) =
      [ReadFile [] (overrides node) (Some (object_path node))]"
    by (simp add: procedural_viewport_def Let_def readCalls_def readerCalls_def
        List.map_filter_simps)
next
  assume "filename node \<noteq> [] \<and>
      \<not> IsSupportedFile h (applyProceduralSearchPath h (filename node) u)"
  with assms have "viewport_filename h node u =
      Inl [AiMsgError (''[usd] File not supported : '' @
             applyProceduralSearchPath h (filename node) u)]"
    by (simp add: viewport_filename_def Let_def)
  then show "procedural_viewport h node u mode params =
      (False, [AiMsgError (''[usd] File not supported : '' @
                 applyProceduralSearchPath h (filename node) u)])"
    by (simp add: procedural_viewport_def)
qed

theorem procedural_viewport_filename_check_witness:
  "cache_id example_node = 0 \<and>
   procedural_viewport example_host (example_node\<lparr>filename := ''''\<rparr>) None AI_PROC_BOXES None =
     (False, []) \<and>
   procedural_viewport example_host (example_node\<lparr>filename := '''', overrides := None\<rparr>) None
     AI_PROC_BOXES None = (False, []) \<and>
   fst (procedural_viewport example_host
     (example_node\<lparr>filename := '''', overrides := Some [''#usda 1.0'']\<rparr>) None AI_PROC_BOXES None) \<and>
   readCalls (readerCalls (snd (procedural_viewport example_host
     (example_node\<lparr>filename := '''', overrides := Some [''#usda 1.0'']\<rparr>) None AI_PROC_BOXES None))) =
     [ReadFile '''' (Some [''#usda 1.0'']) (Some ''/root'')] \<and>
   applyProceduralSearchPath example_host ''a.abc'' None = ''a.abc'' \<and>
   \<not> IsSupportedFile example_host ''a.abc'' \<and>
   procedural_viewport example_host (example_node\<lparr>filename := ''a.abc''\<rparr>) None AI_PROC_BOXES None =
     (False, [AiMsgError ''[usd] File not supported : a.abc''])"
proof -
  have c: "cache_id example_node = 0"
    by (simp add: example_node_def)
  have sp: "applyProceduralSearchPath example_host ''a.abc'' None = ''a.abc''"
    by (simp add: applyProceduralSearchPath_def AiUniverseGetOptions_def example_host_def)
  have ns: "\<not> IsSupportedFile example_host ''a.abc''"
    by (simp add: example_host_def extensionOf_def)
  have 1: "procedural_viewport example_host (example_node\<lparr>filename := ''''\<rparr>) None AI_PROC_BOXES None =
     (False, [])"
    using procedural_viewport_filename_check
      [of "example_node\<lparr>filename := ''''\<rparr>" example_host None AI_PROC_BOXES None]
    by (simp add: example_node_def)
  have 2: "procedural_viewport example_host (example_node\<lparr>filename := '''', overrides := None\<rparr>) None
     AI_PROC_BOXES None = (False, [])"
    using procedural_viewport_filename_check
      [of "example_node\<lparr>filename := '''', overrides := None\<rparr>" example_host None AI_PROC_BOXES None]
    by (simp add: example_node_def)
  have 3: "fst (procedural_viewport example_host
       (example_node\<lparr>filename := '''', overrides := Some [''#usda 1.0'']\<rparr>) None AI_PROC_BOXES None) \<and>
     readCalls (readerCalls (snd (procedural_viewport example_host
       (example_node\<lparr>filename := '''', overrides := Some [''#usda 1.0'']\<rparr>) None AI_PROC_BOXES None))) =
     [ReadFile '''' (Some [''#usda 1.0'']) (Some ''/root'')]"
    using procedural_viewport_filename_check
      [of "example_node\<lparr>filename := '''', overrides := Some [''#usda 1.0'']\<rparr>" example_host None
          AI_PROC_BOXES None]
    by (simp add: example_node_def)
  have 4: "procedural_viewport example_host (example_node\<lparr>filename := ''a.abc''\<rparr>) None AI_PROC_BOXES None =
     (False, [AiMsgError ''[usd] File not supported : a.abc''])"
    using procedural_viewport_filename_check
      [of "example_node\<lparr>filename := ''a.abc''\<rparr>" example_host None AI_PROC_BOXES None] sp ns
    by (simp add: example_node_def)
  from c sp ns 1 2 3 4 show ?thesis by simp
qed

section \<open>The scene format and the node list\<close>

text \<open>
  C8. The scene-format loader declares the extensions \<open>.usd\<close>, \<open>.usda\<close> and \<open>.usdc\<close>,
  in that order and no other, for the format named \<open>USD\<close>, and returns true.
\<close>
theorem scene_format_loader_extensions:
  "extensions (fst (scene_format_loader h format)) = [''.usd'', ''.usda'', ''.usdc''] \<and>
   format_name (fst (scene_format_loader h format)) = ''USD'' \<and>
   snd (scene_format_loader h format)"
  by (simp add: scene_format_loader_def)

theorem scene_format_loader_extensions_witness:
  "extensions (fst (scene_format_loader example_host example_format)) ! 0 = ''.usd'' \<and>
   extensions (fst (scene_format_loader example_host example_format)) ! 1 = ''.usda'' \<and>
   extensions (fst (scene_format_loader example_host example_format)) ! 2 = ''.usdc'' \<and>
   length (extensions (fst (scene_format_loader example_host example_format))) = 3"
  using scene_format_loader_extensions [of example_host example_format] by simp

lemma sint_narrow: "n < 2 ^ 31 \<Longrightarrow> sint (word_of_nat n :: c_int) = int n"
  by (simp add: signed_of_nat signed_take_bit_int_eq_self)

lemma uint_narrow: "uint (word_of_nat n :: c_int) = int n mod 2 ^ 32"
  by (simp add: unsigned_of_nat take_bit_eq_mod zmod_int)

text \<open>
  C10. With a null user pointer \<^verbatim>\<open>procedural_num_nodes\<close> returns 0 and
  \<^verbatim>\<open>procedural_get_node\<close> returns null. With a reader, \<^verbatim>\<open>procedural_num_nodes\<close>
  returns the length of the reader's node list narrowed to 32 bits, which is the
  length itself when the list has fewer than \<open>2 ^ 31\<close> nodes; and for every index
  from 0 up to the length of the list, excluded, \<^verbatim>\<open>procedural_get_node\<close> returns the
  node at that index of the list, without leaving the list.
\<close>

theorem procedural_nodes_access:
  fixes data :: "'f UsdArnoldReader"
  shows
  "procedural_num_nodes (None :: 'f UsdArnoldReader option) = 0 \<and>
   procedural_get_node (None :: 'f UsdArnoldReader option) i = Inr None \<and>
   uint (procedural_num_nodes (Some data)) = int (length (GetNodes data)) mod 2 ^ 32 \<and>
   (length (GetNodes data) < 2 ^ 31 \<longrightarrow>
      sint (procedural_num_nodes (Some data)) = int (length (GetNodes data))) \<and>
   (0 \<le> sint i \<and> sint i < int (length (GetNodes data)) \<longrightarrow>
      procedural_get_node (Some data) i = Inr (Some (GetNodes data ! nat (sint i))))"
  by (simp add: procedural_num_nodes_def procedural_get_node_def sint_narrow uint_narrow)

theorem procedural_nodes_access_witness:
  "GetNodes example_reader = [1, 2, 3] \<and>
   length (GetNodes example_reader) < 2 ^ 31 \<and>
   sint (procedural_num_nodes (Some example_reader)) = 3 \<and>
   (0::int) \<le> sint (2 :: c_int) \<and> sint (2 :: c_int) < int (length (GetNodes example_reader)) \<and>
   procedural_get_node (Some example_reader) 2 = Inr (Some 3) \<and>
   procedural_get_node (Some example_reader) 0 = Inr (Some 1)"
proof -
  have g: "GetNodes example_reader = [1, 2, 3]"
    by (simp add: example_reader_def procedural_init_def Let_def Read_def example_host_def)
  from procedural_nodes_access [of 2 example_reader] procedural_nodes_access [of 0 example_reader] g
  show ?thesis by simp
qed

theorem procedural_nodes_access_counterexample:
  "int (length (GetNodes huge_reader)) = 2147483648 \<and>
   sint (procedural_num_nodes (Some huge_reader)) = - 2147483648"
  by (simp add: procedural_num_nodes_def huge_reader_def)

end
